theory Spec2Isabelle
  imports Complex_Main
begin

section \<open>The signal-streaming pipeline of the rehabilitation dashboard\<close>

text \<open>
  The development embeds the producer of \<^verbatim>\<open>simulator.py\<close>, the producer and the three
  polling callbacks of \<^verbatim>\<open>app.py\<close>, and the heart-rate estimator of \<^verbatim>\<open>sensors.py\<close>.

  Conventions of the embedding:
  \<^item> Python and numpy floats are idealised as real numbers; rounding error, NaN and
    signed zeros are not represented. A float division by a numpy zero, which numpy
    answers with an infinity and a warning, is the value \<open>Infinite\<close>.
  \<^item> The wall clock and the random generator are inputs: every iteration of a producer
    loop receives a \<open>tick\<close> holding the elapsed time, the formatted time stamp and the
    values drawn from \<^verbatim>\<open>np.random.normal\<close>.
  \<^item> The stream file is the list of its lines, \<open>None\<close> when the file does not exist.
  \<^item> Both modules define functions of the same names; the prefix \<open>sim_\<close> marks
    \<^verbatim>\<open>simulator.py\<close>, the prefix \<open>app_\<close> marks \<^verbatim>\<open>app.py\<close>.
\<close>

subsection \<open>Rows of the stream file\<close>

record sample =
  timestamp :: string
  ecg :: real
  accel_x :: real
  accel_y :: real
  accel_z :: real
  gyro_x :: real
  gyro_y :: real
  gyro_z :: real
  status_ecg :: string
  status_imu :: string

text \<open>A line of the file is the header row written by \<^verbatim>\<open>init_stream_file\<close> or a data row.\<close>

datatype line = Header | Row sample

type_synonym stream_file = "line list option"

datatype error =
    FileNotFoundError
  | IndexError
  | EmptyDataError
  | KeyError
  | TypeError
  | ZeroDivisionError

record tick =
  now :: real
  stamp :: string
  noise :: real
  rnd_accel_y :: real
  rnd_accel_z :: real
  rnd_gyro_y :: real
  rnd_gyro_z :: real

text \<open>
  \<^verbatim>\<open>f"{x:.4f}"\<close> and \<^verbatim>\<open>f"{x:.2f}"\<close>: the value rounded to \<open>d\<close> decimals, to the even
  neighbour on a tie.
\<close>

definition round_half_even :: "real \<Rightarrow> int" where
  "round_half_even x =
     (let n = \<lfloor>x\<rfloor>; r = x - of_int n
      in if r < 1 / 2 then n
         else if 1 / 2 < r then n + 1
         else if even n then n else n + 1)"

definition py_format :: "nat \<Rightarrow> real \<Rightarrow> real" where
  "py_format d x = of_int (round_half_even (x * 10 ^ d)) / 10 ^ d"

text \<open>Python's \<^verbatim>\<open>a % b\<close> on floats, for a divisor that is not zero.\<close>

definition py_fmod :: "real \<Rightarrow> real \<Rightarrow> real" where
  "py_fmod a b = a - b * of_int \<lfloor>a / b\<rfloor>"

text \<open>\<^verbatim>\<open>init_stream_file\<close> (both modules): opens with mode \<^verbatim>\<open>'w'\<close> and writes the header.\<close>

definition init_stream_file :: "stream_file \<Rightarrow> stream_file" where
  "init_stream_file fs = Some [Header]"

subsection \<open>The producer of simulator.py\<close>

definition SAMPLE_RATE :: real where
  "SAMPLE_RATE = 0.02"

definition MAX_SAMPLES :: nat where
  "MAX_SAMPLES = 250"

definition sim_generate_ecg_sample :: "real \<Rightarrow> real \<Rightarrow> real \<Rightarrow> error + (real \<times> string)" where
  "sim_generate_ecg_sample t base_bpm nz =
     (let heart_rate = base_bpm / 60 in
      if heart_rate = 0 then Inl ZeroDivisionError
      else
        let beat_period = 1 / heart_rate;
            t_in_beat = py_fmod t beat_period;
            normalized_t = t_in_beat / beat_period;
            wave =
              (if 0 \<le> normalized_t \<and> normalized_t < 0.12 then
                 0.12 * sin (pi * (normalized_t / 0.12))
               else if 0.15 \<le> normalized_t \<and> normalized_t < 0.30 then
                 (let qrs_phase = (normalized_t - 0.15) / 0.15 in
                  if qrs_phase < 0.1 then - 0.05 * sin (pi * (qrs_phase / 0.1))
                  else if qrs_phase < 0.4 then 1.0 * sin (pi * ((qrs_phase - 0.1) / 0.3))
                  else - 0.1 * sin (pi * ((qrs_phase - 0.4) / 0.6)))
               else if 0.40 \<le> normalized_t \<and> normalized_t < 0.65 then
                 0.25 * sin (pi * ((normalized_t - 0.40) / 0.25))
               else 0)
        in Inr (wave + nz, ''NORMAL''))"

text \<open>
  \<^verbatim>\<open>generate_imu_sample\<close> returns the tuple
  \<open>(accel_x, accel_y, accel_z, gyro_x, gyro_y, gyro_z, status)\<close>.
\<close>

type_synonym imu = "real \<times> real \<times> real \<times> real \<times> real \<times> real \<times> string"

definition sim_generate_imu_sample :: "real \<Rightarrow> string \<Rightarrow> real \<Rightarrow> real \<Rightarrow> imu" where
  "sim_generate_imu_sample t exercise_phase ry rz =
     (let movement_freq = 0.3;
          cycle_time = t * movement_freq;
          base_angle =
            (if exercise_phase = ''extension'' then 45 + 15 * sin (2 * pi * cycle_time)
             else 60 + 35 * sin (2 * pi * cycle_time));
          angle = max 0 (min 100 base_angle)
      in (angle, ry, 9.81 + rz, 0, 0, 0, ''NORMAL''))"

text \<open>The phase expression of the loop of \<^verbatim>\<open>run_simulator\<close>.\<close>

definition sim_exercise_phase :: "nat \<Rightarrow> string" where
  "sim_exercise_phase count =
     (if (count div 100) mod 2 = 0 then ''extension'' else ''flexion'')"

record producer_state =
  sample_count :: nat
  stream :: stream_file

text \<open>The row that one iteration writes, from the generators' results.\<close>

definition sim_row :: "tick \<Rightarrow> nat \<Rightarrow> error + sample" where
  "sim_row tk count =
     (case sim_generate_ecg_sample (now tk) 75 (noise tk) of
        Inl e \<Rightarrow> Inl e
      | Inr (e, st_ecg) \<Rightarrow>
          (case sim_generate_imu_sample (now tk) (sim_exercise_phase count)
                  (rnd_accel_y tk) (rnd_accel_z tk) of
             (a0, a1, a2, g0, g1, g2, st_imu) \<Rightarrow>
               Inr \<lparr>timestamp = stamp tk, ecg = py_format 4 e,
                    accel_x = py_format 2 a0, accel_y = py_format 2 a1,
                    accel_z = py_format 2 a2, gyro_x = 0, gyro_y = 0, gyro_z = 0,
                    status_ecg = st_ecg, status_imu = st_imu\<rparr>))"

text \<open>
  The sliding window: the file is read whole, then rewritten as its first line, the
  lines kept, and the new row. \<^verbatim>\<open>lines[-(MAX_SAMPLES-1):]\<close> is the last 249 lines (all
  of them when there are fewer); \<^verbatim>\<open>lines[0]\<close> raises on an empty file.
\<close>

definition sim_rewrite :: "line list \<Rightarrow> sample \<Rightarrow> error + line list" where
  "sim_rewrite lines s =
     (case lines of
        [] \<Rightarrow> Inl IndexError
      | header # _ \<Rightarrow>
          Inr (header #
               (if length lines > MAX_SAMPLES
                then drop (length lines - (MAX_SAMPLES - 1)) lines
                else tl lines) @ [Row s]))"

definition sim_loop_body :: "tick \<Rightarrow> producer_state \<Rightarrow> error + producer_state" where
  "sim_loop_body tk st =
     (case sim_row tk (sample_count st) of
        Inl e \<Rightarrow> Inl e
      | Inr s \<Rightarrow>
          (case stream st of
             None \<Rightarrow> Inl FileNotFoundError
           | Some lines \<Rightarrow>
               (case sim_rewrite lines s of
                  Inl e \<Rightarrow> Inl e
                | Inr lines' \<Rightarrow>
                    Inr (st\<lparr>stream := Some lines', sample_count := sample_count st + 1\<rparr>))))"

text \<open>
  The loop is \<^verbatim>\<open>while True\<close>; the model runs it for the ticks it is given and stops at
  the first exception, which the source lets escape.
\<close>

fun sim_loop :: "tick list \<Rightarrow> producer_state \<Rightarrow> error + producer_state" where
  "sim_loop [] st = Inr st"
| "sim_loop (tk # tks) st =
     (case sim_loop_body tk st of Inl e \<Rightarrow> Inl e | Inr st' \<Rightarrow> sim_loop tks st')"

definition sim_run_simulator :: "tick list \<Rightarrow> stream_file \<Rightarrow> error + producer_state" where
  "sim_run_simulator tks fs =
     sim_loop tks \<lparr>sample_count = 0, stream = init_stream_file fs\<rparr>"

subsection \<open>The producer of app.py\<close>

definition app_generate_ecg_sample :: "real \<Rightarrow> real \<Rightarrow> real \<Rightarrow> error + (real \<times> string)" where
  "app_generate_ecg_sample t base_bpm nz =
     (let heart_rate = base_bpm / 60 in
      if heart_rate = 0 then Inl ZeroDivisionError
      else
        let wave = 0.5 * sin (2 * pi * heart_rate * t);
            qrs_time = py_fmod t (1 / heart_rate);
            wave' =
              (if 0.1 < qrs_time \<and> qrs_time < 0.2
               then wave + 0.8 * exp (- ((qrs_time - 0.15) ^ 2) / 0.001)
               else wave);
            status = (if \<bar>nz\<bar> > 0.12 then ''RED_FLAG_ARRHYTHMIA'' else ''NORMAL'')
        in Inr (wave' + nz, status))"

definition app_generate_imu_sample ::
    "real \<Rightarrow> string \<Rightarrow> real \<Rightarrow> real \<Rightarrow> real \<Rightarrow> real \<Rightarrow> imu" where
  "app_generate_imu_sample t exercise_phase ry rz rgy rgz =
     (let angle =
            (if exercise_phase = ''extension'' then min 90 (45 * sin (0.5 * t) + 45)
             else max 0 (90 - 45 * sin (0.5 * t)));
          g_x = 20 * cos (0.5 * t);
          status = (if \<bar>ry\<bar> > 5 \<or> \<bar>rgy\<bar> > 3 then ''RED_FLAG_FATIGUE'' else ''NORMAL'')
      in (angle, ry, rz, g_x, rgy, rgz, status))"

definition app_exercise_phase :: "nat \<Rightarrow> string" where
  "app_exercise_phase count =
     (if (count div 20) mod 2 = 0 then ''extension'' else ''flexion'')"

definition app_row :: "tick \<Rightarrow> nat \<Rightarrow> error + sample" where
  "app_row tk count =
     (let base_bpm = 75 + 10 * sin (0.1 * now tk) in
      case app_generate_ecg_sample (now tk) base_bpm (noise tk) of
        Inl e \<Rightarrow> Inl e
      | Inr (e, st_ecg) \<Rightarrow>
          (case app_generate_imu_sample (now tk) (app_exercise_phase count)
                  (rnd_accel_y tk) (rnd_accel_z tk) (rnd_gyro_y tk) (rnd_gyro_z tk) of
             (a0, a1, a2, g0, g1, g2, st_imu) \<Rightarrow>
               Inr \<lparr>timestamp = stamp tk, ecg = py_format 4 e,
                    accel_x = py_format 2 a0, accel_y = py_format 2 a1,
                    accel_z = py_format 2 a2, gyro_x = py_format 2 g0,
                    gyro_y = py_format 2 g1, gyro_z = py_format 2 g2,
                    status_ecg = st_ecg, status_imu = st_imu\<rparr>))"

text \<open>Mode \<^verbatim>\<open>'a'\<close>: the row goes after what the file holds; a missing file is created.\<close>

definition app_append :: "stream_file \<Rightarrow> sample \<Rightarrow> stream_file" where
  "app_append fs s = (case fs of None \<Rightarrow> Some [Row s] | Some lines \<Rightarrow> Some (lines @ [Row s]))"

definition app_loop_body :: "tick \<Rightarrow> producer_state \<Rightarrow> error + producer_state" where
  "app_loop_body tk st =
     (case app_row tk (sample_count st) of
        Inl e \<Rightarrow> Inl e
      | Inr s \<Rightarrow>
          Inr (st\<lparr>stream := app_append (stream st) s, sample_count := sample_count st + 1\<rparr>))"

text \<open>An exception in the body is printed and the loop left by \<^verbatim>\<open>break\<close>.\<close>

fun app_loop :: "tick list \<Rightarrow> producer_state \<Rightarrow> error + producer_state" where
  "app_loop [] st = Inr st"
| "app_loop (tk # tks) st =
     (case app_loop_body tk st of Inl e \<Rightarrow> Inl e | Inr st' \<Rightarrow> app_loop tks st')"

definition app_run_simulator :: "tick list \<Rightarrow> stream_file \<Rightarrow> error + producer_state" where
  "app_run_simulator tks fs =
     app_loop tks \<lparr>sample_count = 0, stream = init_stream_file fs\<rparr>"

subsection \<open>Reading the stream: pandas\<close>

text \<open>
  \<^verbatim>\<open>pd.read_csv\<close> names the columns after the first line and reads the others as rows.
  A body line that repeats the header text is a row of strings, and turns the numeric
  columns of the whole frame into text. A cell is a number or a text.
\<close>

datatype cell = Num real | Txt string

record dataframe =
  named :: bool
  numeric :: bool
  rows :: "line list"

definition read_csv :: "stream_file \<Rightarrow> error + dataframe" where
  "read_csv fs =
     (case fs of
        None \<Rightarrow> Inl FileNotFoundError
      | Some [] \<Rightarrow> Inl EmptyDataError
      | Some (l # ls) \<Rightarrow>
          Inr \<lparr>named = (l = Header), numeric = (Header \<notin> set ls), rows = ls\<rparr>)"

definition tail :: "nat \<Rightarrow> dataframe \<Rightarrow> dataframe" where
  "tail n df = df\<lparr>rows := drop (length (rows df) - n) (rows df)\<rparr>"

fun col_timestamp :: "line \<Rightarrow> string" where
  "col_timestamp Header = ''timestamp''"
| "col_timestamp (Row s) = timestamp s"

fun col_ecg :: "line \<Rightarrow> cell" where
  "col_ecg Header = Txt ''ecg''"
| "col_ecg (Row s) = Num (ecg s)"

fun col_accel_x :: "line \<Rightarrow> cell" where
  "col_accel_x Header = Txt ''accel_x''"
| "col_accel_x (Row s) = Num (accel_x s)"

fun col_status_ecg :: "line \<Rightarrow> string" where
  "col_status_ecg Header = ''status_ecg''"
| "col_status_ecg (Row s) = status_ecg s"

fun col_status_imu :: "line \<Rightarrow> string" where
  "col_status_imu Header = ''status_imu''"
| "col_status_imu (Row s) = status_imu s"

text \<open>\<^verbatim>\<open>(df[col] == flag).any()\<close>\<close>

definition any_eq :: "(line \<Rightarrow> string) \<Rightarrow> string \<Rightarrow> dataframe \<Rightarrow> bool" where
  "any_eq col flag df = list_ex (\<lambda>l. col l = flag) (rows df)"

text \<open>
  The numbers of a numeric column, and Python's \<^verbatim>\<open>max\<close>. Both are applied only where
  the source cannot raise: \<open>number\<close> to the cells of a frame whose columns are numeric,
  \<open>py_max\<close> to the column of a frame already tested not to be empty.
\<close>

fun number :: "cell \<Rightarrow> real" where
  "number (Num x) = x"
| "number (Txt s) = 0"

fun py_max :: "real list \<Rightarrow> real" where
  "py_max [] = 0"
| "py_max (x # xs) = fold max xs x"

subsection \<open>The polling callbacks of app.py\<close>

text \<open>
  The texts shown are kept without their leading pictographs and accents. A callback
  leaves an output as it is with \<^verbatim>\<open>dash.no_update\<close>; every exception inside its
  \<^verbatim>\<open>try\<close> is caught.
\<close>

record ecg_figure =
  fig_y :: "real list"
  fig_color :: string
  fig_title :: string

datatype main_output = Main_no_update | Main_update ecg_figure real

definition update_main_dashboard_auto :: "nat \<Rightarrow> string \<Rightarrow> stream_file \<Rightarrow> main_output" where
  "update_main_dashboard_auto n pathname fs =
     (if pathname \<noteq> ''/'' \<or> fs = None then Main_no_update
      else
        case read_csv fs of
          Inl e \<Rightarrow> Main_no_update
        | Inr full \<Rightarrow>
            (let df = tail 50 full in
             if rows df = [] then Main_no_update
             else if \<not> named df then Main_no_update
             else
               let y_data = map (number \<circ> col_ecg) (rows df);
                   is_warning = any_eq col_status_ecg ''RED_FLAG_ARRHYTHMIA'' df;
                   line_color = (if is_warning then ''#ef4444'' else ''#2ebf7f'');
                   fig = \<lparr>fig_y = y_data, fig_color = line_color,
                          fig_title = (if is_warning then ''Alerta: Arritmia Detectada''
                                       else ''Ritmo Cardiaco Normal'')\<rparr>
               in if \<not> numeric df then Main_no_update
                  else
                    let bpm = 75 + (py_max y_data * 5)
                    in Main_update fig (py_format 1 bpm)))"

datatype alert = Arrhythmia_alert string | Fatigue_alert

record doctor_figure =
  doc_x :: "string list"
  doc_y :: "cell list"
  doc_color :: string

datatype monitor_output = Monitor_no_update | Monitor_update "alert list" doctor_figure

definition monitor_patient_health ::
    "nat \<Rightarrow> string option \<Rightarrow> stream_file \<Rightarrow> monitor_output" where
  "monitor_patient_health n selected_patient fs =
     (case selected_patient of
        None \<Rightarrow> Monitor_no_update
      | Some patient \<Rightarrow>
          if patient = [] \<or> fs = None then Monitor_no_update
          else
            case read_csv fs of
              Inl e \<Rightarrow> Monitor_no_update
            | Inr full \<Rightarrow>
                (let df = tail 100 full in
                 if \<not> named df then Monitor_no_update
                 else
                   let alerts =
                         (if any_eq col_status_ecg ''RED_FLAG_ARRHYTHMIA'' df
                          then [Arrhythmia_alert patient] else []) @
                         (if any_eq col_status_imu ''RED_FLAG_FATIGUE'' df
                          then [Fatigue_alert] else []);
                       line_color =
                         (if any_eq col_status_ecg ''RED_FLAG_ARRHYTHMIA'' df
                          then ''red'' else ''green'')
                   in Monitor_update alerts
                        \<lparr>doc_x = map col_timestamp (rows df),
                         doc_y = map col_ecg (rows df), doc_color = line_color\<rparr>))"

datatype chart = Empty_fig | Chart_no_update | Line_fig "cell option list" string

type_synonym sensor_output = "chart \<times> chart \<times> string \<times> string"

text \<open>\<^verbatim>\<open>while len(y) < 50: y.insert(0, None)\<close>\<close>

definition pad50 :: "cell list \<Rightarrow> cell option list" where
  "pad50 ys = replicate (50 - length ys) None @ map Some ys"

definition update_sensor_charts :: "nat \<Rightarrow> bool \<Rightarrow> stream_file \<Rightarrow> sensor_output" where
  "update_sensor_charts n is_open fs =
     (if \<not> is_open \<or> fs = None then
        (Empty_fig, Empty_fig, ''Esperando datos...'', ''Esperando datos...'')
      else
        case read_csv fs of
          Inl e \<Rightarrow> (Chart_no_update, Chart_no_update, ''Error'', ''Error'')
        | Inr full \<Rightarrow>
            (let df = tail 50 full in
             if rows df = [] \<or> length (rows df) < 2 then
               (Chart_no_update, Chart_no_update, ''Recolectando...'', ''Recolectando...'')
             else if \<not> named df then
               (Chart_no_update, Chart_no_update, ''Error'', ''Error'')
             else
               let y_ecg = pad50 (map col_ecg (rows df));
                   y_imu = pad50 (map col_accel_x (rows df));
                   has_arrhythmia = any_eq col_status_ecg ''RED_FLAG_ARRHYTHMIA'' df;
                   fig_ecg = Line_fig y_ecg (if has_arrhythmia then ''#ef4444'' else ''#10b981'');
                   has_fatigue = any_eq col_status_imu ''RED_FLAG_FATIGUE'' df;
                   fig_imu = Line_fig y_imu (if has_fatigue then ''#f59e0b'' else ''#3b82f6'');
                   ecg_msg = (if has_arrhythmia then ''ARRITMIA DETECTADA'' else ''Ritmo Normal'');
                   imu_msg = (if has_fatigue then ''FATIGA DETECTADA'' else ''Movimiento Fluido'')
               in (fig_ecg, fig_imu, ecg_msg, imu_msg)))"

subsection \<open>The heart-rate estimator of sensors.py\<close>

text \<open>
  A numpy float that came out of a division: a real, or the infinity that numpy returns
  (with a warning, not an exception) when the divisor is zero.
\<close>

datatype npfloat = Finite real | Infinite

definition np_div :: "real \<Rightarrow> real \<Rightarrow> npfloat" where
  "np_div a b = (if b = 0 then Infinite else Finite (a / b))"

text \<open>
  \<^verbatim>\<open>np.mean\<close> and \<^verbatim>\<open>np.diff\<close>. The mean of an empty array (numpy: NaN and a
  warning) is used only to centre an empty recording, which stays empty.
\<close>

definition np_mean :: "real list \<Rightarrow> real" where
  "np_mean xs = sum_list xs / real (length xs)"

fun np_diff :: "real list \<Rightarrow> real list" where
  "np_diff (a # b # xs) = (b - a) # np_diff (b # xs)"
| "np_diff xs = []"

definition calculate_bpm :: "real list \<Rightarrow> npfloat" where
  "calculate_bpm rr_intervals =
     (if length rr_intervals > 0 then np_div 60 (np_mean rr_intervals) else Finite 0)"

text \<open>
  \<^verbatim>\<open>t[peaks]\<close>: numpy raises IndexError when an index is outside the array.
\<close>

definition take_at :: "real list \<Rightarrow> nat list \<Rightarrow> error + real list" where
  "take_at t peaks =
     (if list_all (\<lambda>i. i < length t) peaks then Inr (map (\<lambda>i. t ! i) peaks)
      else Inl IndexError)"

text \<open>
  A recording is the rows of the file, each a pair of the columns \<^verbatim>\<open>Time\<close> and
  \<^verbatim>\<open>ECG\<close>. \<^verbatim>\<open>scipy.signal.find_peaks\<close> with \<^verbatim>\<open>distance=50, prominence=0.5\<close> belongs
  to a library and is the parameter \<open>find_peaks\<close>: it maps the centred amplitudes to the
  indices of the peaks it accepts.
\<close>

definition load_ecg_and_compute_bpm ::
    "(real list \<Rightarrow> nat list) \<Rightarrow> (real \<times> real) list \<Rightarrow> error + (real list \<times> real list \<times> npfloat)" where
  "load_ecg_and_compute_bpm find_peaks recording =
     (let t = map fst recording;
          ecg0 = map snd recording;
          ecg1 = map (\<lambda>v. v - np_mean ecg0) ecg0;
          peaks = find_peaks ecg1
      in case take_at t peaks of
           Inl e \<Rightarrow> Inl e
         | Inr t_peaks \<Rightarrow>
             (let rr_intervals = np_diff t_peaks;
                  bpm = calculate_bpm rr_intervals
              in Inr (t, ecg1, bpm)))"

subsection \<open>Auxiliary notions for the statements\<close>

text \<open>The last \<open>k\<close> elements of a list: Python's \<^verbatim>\<open>xs[-k:]\<close> and pandas' \<^verbatim>\<open>tail(k)\<close>.\<close>

definition last_n :: "nat \<Rightarrow> 'a list \<Rightarrow> 'a list" where
  "last_n k xs = drop (length xs - k) xs"

text \<open>
  The rows the loop of \<^verbatim>\<open>simulator.py\<close> appends for a list of ticks, the first of them
  at sample count \<open>c\<close>.
\<close>

fun sim_rows :: "nat \<Rightarrow> tick list \<Rightarrow> sample list" where
  "sim_rows c [] = []"
| "sim_rows c (tk # tks) =
     (case sim_row tk c of Inl e \<Rightarrow> [] | Inr s \<Rightarrow> s # sim_rows (Suc c) tks)"

text \<open>The same for the loop of \<^verbatim>\<open>app.py\<close>.\<close>

fun app_rows :: "nat \<Rightarrow> tick list \<Rightarrow> sample list" where
  "app_rows c [] = []"
| "app_rows c (tk # tks) =
     (case app_row tk c of Inl e \<Rightarrow> [] | Inr s \<Rightarrow> s # app_rows (Suc c) tks)"

text \<open>A tick for concrete runs: the \<open>i\<close>-th sample of a 50 Hz producer, without noise.\<close>

definition tick_at :: "nat \<Rightarrow> tick" where
  "tick_at i = \<lparr>now = real i / 50, stamp = replicate i (CHR ''t''), noise = 0,
                rnd_accel_y = 0, rnd_accel_z = 0, rnd_gyro_y = 0, rnd_gyro_z = 0\<rparr>"

text \<open>A row with given statuses and ECG amplitude, for concrete files.\<close>

definition flagged :: "string \<Rightarrow> string \<Rightarrow> real \<Rightarrow> sample" where
  "flagged st_ecg st_imu v =
     \<lparr>timestamp = ''12:00:00.000'', ecg = v, accel_x = 45, accel_y = 0, accel_z = 9.81,
      gyro_x = 0, gyro_y = 0, gyro_z = 0, status_ecg = st_ecg, status_imu = st_imu\<rparr>"

section \<open>Properties\<close>

subsection \<open>The sliding window of simulator.py\<close>

lemma sim_generate_ecg_sample_75:
  "\<exists>e. sim_generate_ecg_sample t 75 nz = Inr (e, ''NORMAL'')"
  by (simp add: sim_generate_ecg_sample_def Let_def)

lemma sim_row_ok:
  "\<exists>s. sim_row tk c = Inr s \<and> timestamp s = stamp tk \<and> status_ecg s = ''NORMAL'' \<and> status_imu s = ''NORMAL''"
proof -
  obtain e where e: "sim_generate_ecg_sample (now tk) 75 (noise tk) = Inr (e, ''NORMAL'')"
    using sim_generate_ecg_sample_75 by blast
  show ?thesis
    by (simp add: sim_row_def e sim_generate_imu_sample_def Let_def)
qed

lemma length_sim_rows: "length (sim_rows c tks) = length tks"
proof (induction tks arbitrary: c)
  case Nil
  show ?case by simp
next
  case (Cons tk tks)
  obtain s where "sim_row tk c = Inr s" using sim_row_ok by blast
  with Cons show ?case by simp
qed

lemma sim_rows_nth:
  "i < length tks \<Longrightarrow> sim_row (tks ! i) (c + i) = Inr (sim_rows c tks ! i)"
proof (induction tks arbitrary: c i)
  case Nil
  then show ?case by simp
next
  case (Cons tk tks)
  obtain s where s: "sim_row tk c = Inr s" using sim_row_ok by blast
  show ?case
  proof (cases i)
    case 0
    with s show ?thesis by simp
  next
    case (Suc j)
    with Cons.prems have "j < length tks" by simp
    from Cons.IH [OF this, of "Suc c"] s Suc show ?thesis by simp
  qed
qed

lemma length_last_n: "length (last_n k xs) = min k (length xs)"
  by (simp add: last_n_def)

lemma last_n_absorb: "last_n k (last_n k xs @ ys) = last_n k (xs @ ys)"
proof (cases "length xs \<le> k")
  case True
  then show ?thesis by (simp add: last_n_def)
next
  case False
  then show ?thesis by (simp add: last_n_def add.commute)
qed

lemma sim_rewrite_window:
  assumes "length old \<le> 250"
  shows "sim_rewrite (Header # map Row old) s = Inr (Header # map Row (last_n 250 (old @ [s])))"
proof (cases "length old = 250")
  case True
  then show ?thesis
    by (simp add: sim_rewrite_def MAX_SAMPLES_def last_n_def drop_map drop_Cons')
next
  case False
  with assms have "length old < 250" by simp
  then show ?thesis
    by (simp add: sim_rewrite_def MAX_SAMPLES_def last_n_def)
qed

lemma sim_loop_window:
  "length old \<le> 250 \<Longrightarrow>
   sim_loop tks \<lparr>sample_count = c, stream = Some (Header # map Row old)\<rparr> =
     Inr \<lparr>sample_count = c + length tks,
          stream = Some (Header # map Row (last_n 250 (old @ sim_rows c tks)))\<rparr>"
proof (induction tks arbitrary: old c)
  case Nil
  then show ?case by (simp add: last_n_def)
next
  case (Cons tk tks)
  obtain s where s: "sim_row tk c = Inr s" using sim_row_ok by blast
  let ?old' = "last_n 250 (old @ [s])"
  have len: "length ?old' \<le> 250" by (simp add: length_last_n)
  have step: "sim_loop_body tk \<lparr>sample_count = c, stream = Some (Header # map Row old)\<rparr> =
      Inr \<lparr>sample_count = Suc c, stream = Some (Header # map Row ?old')\<rparr>"
    by (simp add: sim_loop_body_def s sim_rewrite_window [OF Cons.prems])
  have absorb: "last_n 250 (?old' @ sim_rows (Suc c) tks) = last_n 250 (old @ s # sim_rows (Suc c) tks)"
    using last_n_absorb [of 250 "old @ [s]" "sim_rows (Suc c) tks"] by simp
  show ?case
    using Cons.IH [OF len, of "Suc c"] by (simp add: step s absorb)
qed

lemma sim_run_simulator_window:
  "sim_run_simulator tks fs =
     Inr \<lparr>sample_count = length tks,
          stream = Some (Header # map Row (last_n 250 (sim_rows 0 tks)))\<rparr>"
  using sim_loop_window [of "[]" tks 0]
  by (simp add: sim_run_simulator_def init_stream_file_def)



subsection \<open>The heart rate from R-R intervals\<close>

lemma length_np_diff: "length (np_diff xs) = length xs - 1"
  by (induction xs rule: np_diff.induct) simp_all

lemma take_at_in_range:
  "list_all (\<lambda>i. i < length t) peaks \<Longrightarrow> take_at t peaks = Inr (map (\<lambda>i. t ! i) peaks)"
  by (simp add: take_at_def)

text \<open>
  Claim C2. For every recording, and peak indices that lie inside the recording (as the
  library's peak detector returns them), \<^verbatim>\<open>load_ecg_and_compute_bpm\<close> returns without an
  exception. With two or more peaks there is at least one R-R interval (the difference
  of the times of consecutive peaks) and the BPM is 60 divided by the mean of the
  intervals, a finite number whenever that mean is not zero. With fewer than two peaks
  the BPM is exactly 0.
\<close>

theorem load_ecg_bpm:
  assumes "list_all (\<lambda>i. i < length recording)
             (find_peaks (map (\<lambda>v. v - np_mean (map snd recording)) (map snd recording)))"
  shows "\<exists>e bpm. load_ecg_and_compute_bpm find_peaks recording = Inr (map fst recording, e, bpm) \<and>
           e = map (\<lambda>v. v - np_mean (map snd recording)) (map snd recording) \<and>
           (let peaks = find_peaks e;
                rr = np_diff (map (\<lambda>i. map fst recording ! i) peaks)
            in (2 \<le> length peaks \<longrightarrow>
                  rr \<noteq> [] \<and> bpm = np_div 60 (sum_list rr / real (length rr)) \<and>
                  (sum_list rr \<noteq> 0 \<longrightarrow> bpm = Finite (60 / (sum_list rr / real (length rr))))) \<and>
               (length peaks < 2 \<longrightarrow> bpm = Finite 0))"
proof -
  let ?e = "map (\<lambda>v. v - np_mean (map snd recording)) (map snd recording)"
  let ?t = "map fst recording"
  let ?rr = "np_diff (map (\<lambda>i. ?t ! i) (find_peaks ?e))"
  have tk: "take_at ?t (find_peaks ?e) = Inr (map (\<lambda>i. ?t ! i) (find_peaks ?e))"
    using assms by (simp add: take_at_in_range)
  have run: "load_ecg_and_compute_bpm find_peaks recording = Inr (?t, ?e, calculate_bpm ?rr)"
    unfolding load_ecg_and_compute_bpm_def Let_def by (simp only: tk sum.case)
  have len: "length ?rr = length (find_peaks ?e) - 1"
    by (simp add: length_np_diff)
  have many: "?rr \<noteq> [] \<and> calculate_bpm ?rr = np_div 60 (sum_list ?rr / real (length ?rr)) \<and>
      (sum_list ?rr \<noteq> 0 \<longrightarrow> calculate_bpm ?rr = Finite (60 / (sum_list ?rr / real (length ?rr))))"
    if "2 \<le> length (find_peaks ?e)"
  proof -
    from that len have pos: "0 < length ?rr" by simp
    then have ne: "?rr \<noteq> []" by blast
    from pos show ?thesis
      by (simp add: calculate_bpm_def np_mean_def np_div_def ne)
  qed
  have few: "calculate_bpm ?rr = Finite 0" if "length (find_peaks ?e) < 2"
  proof -
    from that len have "length ?rr = 0" by simp
    then show ?thesis by (simp add: calculate_bpm_def)
  qed
  show ?thesis
    unfolding Let_def
    by (rule exI [of _ ?e], rule exI [of _ "calculate_bpm ?rr"]) (use run many few in blast)
qed

theorem load_ecg_bpm_witness:
  "load_ecg_and_compute_bpm (\<lambda>e. [1, 3]) [(0, 0), (0.4, 2), (0.8, 0), (1.2, 2), (1.6, 1)] =
     Inr ([0, 0.4, 0.8, 1.2, 1.6], [-1, 1, -1, 1, 0], Finite 75) \<and>
   load_ecg_and_compute_bpm (\<lambda>e. [1]) [(0, 0), (0.4, 3), (0.8, 0)] =
     Inr ([0, 0.4, 0.8], [-1, 2, -1], Finite 0)"
  using load_ecg_bpm [of "[(0, 0), (0.4, 2), (0.8, 0), (1.2, 2), (1.6, 1)]" "\<lambda>e. [1, 3]"]
        load_ecg_bpm [of "[(0, 0), (0.4, 3), (0.8, 0)]" "\<lambda>e. [1]"]
  by (simp add: np_mean_def np_div_def Let_def)

text \<open>
  Claim C10. \<^verbatim>\<open>calculate_bpm\<close> tests only whether the list of intervals is empty. For a
  list that is not empty and has a positive mean the result is the finite, positive
  quotient 60 / mean. Nothing guards a zero mean: a list that is not empty and has mean
  zero, such as the one interval 0, reaches the division by zero. The empty list gives 0.
\<close>

theorem calculate_bpm_guard:
  "(rr \<noteq> [] \<and> 0 < np_mean rr \<longrightarrow>
      calculate_bpm rr = Finite (60 / np_mean rr) \<and> 0 < 60 / np_mean rr) \<and>
   (rr \<noteq> [] \<and> np_mean rr = 0 \<longrightarrow> calculate_bpm rr = Infinite) \<and>
   calculate_bpm [] = Finite 0 \<and>
   calculate_bpm [0] = Infinite"
proof -
  have a: "calculate_bpm rr = Finite (60 / np_mean rr) \<and> 0 < 60 / np_mean rr"
    if "rr \<noteq> []" "0 < np_mean rr"
    using that by (simp add: calculate_bpm_def np_div_def)
  have b: "calculate_bpm rr = Infinite" if "rr \<noteq> []" "np_mean rr = 0"
    using that by (simp add: calculate_bpm_def np_div_def)
  have c: "calculate_bpm [] = Finite 0" "calculate_bpm [0] = Infinite"
    by (simp_all add: calculate_bpm_def np_div_def np_mean_def)
  show ?thesis using a b c by blast
qed

theorem calculate_bpm_guard_witness:
  "calculate_bpm [0.8, 0.8] = Finite 75 \<and> calculate_bpm [1, - 1] = Infinite"
  using calculate_bpm_guard [of "[0.8, 0.8]"] calculate_bpm_guard [of "[1, - 1]"]
  by (simp add: np_mean_def)

subsection \<open>The producers: phase, statuses and knee angle\<close>

lemma app_generate_ecg_sample_ok:
  "\<exists>e. app_generate_ecg_sample t (75 + 10 * sin (0.1 * t)) nz =
         Inr (e, if \<bar>nz\<bar> > 0.12 then ''RED_FLAG_ARRHYTHMIA'' else ''NORMAL'')"
proof -
  have "- 1 \<le> sin (0.1 * t)" by (rule sin_ge_minus_one)
  then have "75 + 10 * sin (0.1 * t) \<noteq> 0" by linarith
  then show ?thesis by (simp add: app_generate_ecg_sample_def Let_def)
qed

lemma app_generate_imu_sample_unfold:
  "app_generate_imu_sample t ph ry rz rgy rgz =
      (if ph = ''extension'' then min 90 (45 * sin (0.5 * t) + 45) else max 0 (90 - 45 * sin (0.5 * t)),
       ry, rz, 20 * cos (0.5 * t), rgy, rgz,
       if \<bar>ry\<bar> > 5 \<or> \<bar>rgy\<bar> > 3 then ''RED_FLAG_FATIGUE'' else ''NORMAL'')"
  unfolding app_generate_imu_sample_def Let_def by (rule refl)

lemma app_row_ok:
  "\<exists>s. app_row tk c = Inr s \<and> timestamp s = stamp tk \<and>
     status_ecg s = (if \<bar>noise tk\<bar> > 0.12 then ''RED_FLAG_ARRHYTHMIA'' else ''NORMAL'') \<and>
     status_imu s = (if \<bar>rnd_accel_y tk\<bar> > 5 \<or> \<bar>rnd_gyro_y tk\<bar> > 3
                     then ''RED_FLAG_FATIGUE'' else ''NORMAL'')"
proof -
  obtain e where e: "app_generate_ecg_sample (now tk) (75 + 10 * sin (0.1 * now tk)) (noise tk) =
      Inr (e, if \<bar>noise tk\<bar> > 0.12 then ''RED_FLAG_ARRHYTHMIA'' else ''NORMAL'')"
    using app_generate_ecg_sample_ok by blast
  show ?thesis
    unfolding app_row_def Let_def e app_generate_imu_sample_unfold
    by (simp only: sum.case prod.case sample.simps simp_thms ex_simps sum.inject)
qed

lemma length_app_rows: "length (app_rows c tks) = length tks"
proof (induction tks arbitrary: c)
  case Nil
  show ?case by simp
next
  case (Cons tk tks)
  obtain s where "app_row tk c = Inr s" using app_row_ok by blast
  with Cons show ?case by simp
qed

lemma app_rows_nth:
  "i < length tks \<Longrightarrow> app_row (tks ! i) (c + i) = Inr (app_rows c tks ! i)"
proof (induction tks arbitrary: c i)
  case Nil
  then show ?case by simp
next
  case (Cons tk tks)
  obtain s where s: "app_row tk c = Inr s" using app_row_ok by blast
  show ?case
  proof (cases i)
    case 0
    with s show ?thesis by simp
  next
    case (Suc j)
    with Cons.prems have "j < length tks" by simp
    from Cons.IH [OF this, of "Suc c"] s Suc show ?thesis by simp
  qed
qed

text \<open>The loop of \<^verbatim>\<open>app.py\<close> never drops a row: its stream has no capacity.\<close>

lemma app_loop_stream:
  "app_loop tks \<lparr>sample_count = c, stream = Some (Header # map Row old)\<rparr> =
     Inr \<lparr>sample_count = c + length tks,
          stream = Some (Header # map Row (old @ app_rows c tks))\<rparr>"
proof (induction tks arbitrary: c old)
  case Nil
  show ?case by simp
next
  case (Cons tk tks)
  obtain s where s: "app_row tk c = Inr s" using app_row_ok by blast
  have step: "app_loop_body tk \<lparr>sample_count = c, stream = Some (Header # map Row old)\<rparr> =
      Inr \<lparr>sample_count = Suc c, stream = Some (Header # map Row (old @ [s]))\<rparr>"
    by (simp add: app_loop_body_def s app_append_def)
  show ?case
    using Cons [of "Suc c" "old @ [s]"] by (simp add: step s)
qed

lemma app_run_simulator_stream:
  "app_run_simulator tks fs =
     Inr \<lparr>sample_count = length tks, stream = Some (Header # map Row (app_rows 0 tks))\<rparr>"
  using app_loop_stream [of tks 0 "[]"]
  by (simp add: app_run_simulator_def init_stream_file_def)


lemma nth_last_n:
  "i < length (last_n k xs) \<Longrightarrow> last_n k xs ! i = xs ! (length xs - length (last_n k xs) + i)"
  by (simp add: last_n_def)

lemma sim_row_accel_x:
  assumes "sim_row tk k = Inr s"
  shows "accel_x s = py_format 2 (fst (sim_generate_imu_sample (now tk)
             (if even (k div 100) then ''extension'' else ''flexion'')
             (rnd_accel_y tk) (rnd_accel_z tk)))"
proof -
  obtain e where e: "sim_generate_ecg_sample (now tk) 75 (noise tk) = Inr (e, ''NORMAL'')"
    using sim_generate_ecg_sample_75 by blast
  have ph: "sim_exercise_phase k = (if even (k div 100) then ''extension'' else ''flexion'')"
    by (simp add: sim_exercise_phase_def even_iff_mod_2_eq_zero)
  show ?thesis
    using assms unfolding sim_row_def e ph by (auto split: prod.splits)
qed

lemma app_row_accel_x:
  assumes "app_row tk k = Inr s"
  shows "accel_x s = py_format 2 (fst (app_generate_imu_sample (now tk)
             (if even (k div 20) then ''extension'' else ''flexion'')
             (rnd_accel_y tk) (rnd_accel_z tk) (rnd_gyro_y tk) (rnd_gyro_z tk)))"
proof -
  obtain e where e: "app_generate_ecg_sample (now tk) (75 + 10 * sin (0.1 * now tk)) (noise tk) =
      Inr (e, if \<bar>noise tk\<bar> > 0.12 then ''RED_FLAG_ARRHYTHMIA'' else ''NORMAL'')"
    using app_generate_ecg_sample_ok by blast
  have ph: "app_exercise_phase k = (if even (k div 20) then ''extension'' else ''flexion'')"
    by (simp add: app_exercise_phase_def even_iff_mod_2_eq_zero)
  show ?thesis
    using assms unfolding app_row_def Let_def e ph
    by (simp only: sum.case prod.case split: prod.splits) auto
qed

text \<open>
  Claim C7. The phase is a function of the sample count alone: \<open>extension\<close> when
  \<open>c div M\<close> is even and \<open>flexion\<close> when it is odd, with \<open>M = 100\<close> in
  \<^verbatim>\<open>simulator.py\<close> and \<open>M = 20\<close> in \<^verbatim>\<open>app.py\<close>, so it changes after every \<open>M\<close>
  samples. Whatever the ticks (elapsed times, time stamps, random draws) and whatever a
  consumer did to the file before, both loops run without an exception, their count is
  the number of rows produced, and the row of the \<open>k\<close>-th sample of the run (counted
  from 0) carries the angle generated for the phase of \<open>k\<close>: in \<^verbatim>\<open>app.py\<close> it is the
  \<open>k\<close>-th row of the stream, in \<^verbatim>\<open>simulator.py\<close> the rows of the stream are the last
  250 samples, so that its \<open>i\<close>-th row is the sample \<open>k = N - length rows + i\<close> of
  a run of \<open>N\<close> ticks.
\<close>

theorem exercise_phase_by_count:
  "sim_exercise_phase c = (if even (c div 100) then ''extension'' else ''flexion'') \<and>
   app_exercise_phase c = (if even (c div 20) then ''extension'' else ''flexion'') \<and>
   sim_exercise_phase (c + 100) \<noteq> sim_exercise_phase c \<and>
   app_exercise_phase (c + 20) \<noteq> app_exercise_phase c \<and>
   (\<exists>st rows. sim_run_simulator tks fs = Inr st \<and> sample_count st = length tks \<and>
      stream st = Some (Header # map Row rows) \<and> length rows = min (length tks) 250 \<and>
      (\<forall>i<length rows.
         timestamp (rows ! i) = stamp (tks ! (length tks - length rows + i)) \<and>
         accel_x (rows ! i) =
           py_format 2 (fst (sim_generate_imu_sample
             (now (tks ! (length tks - length rows + i)))
             (if even ((length tks - length rows + i) div 100) then ''extension'' else ''flexion'')
             (rnd_accel_y (tks ! (length tks - length rows + i)))
             (rnd_accel_z (tks ! (length tks - length rows + i))))))) \<and>
   (\<exists>st rows. app_run_simulator tks fs = Inr st \<and> sample_count st = length tks \<and>
      stream st = Some (Header # map Row rows) \<and> length rows = length tks \<and>
      (\<forall>k<length tks.
         timestamp (rows ! k) = stamp (tks ! k) \<and>
         accel_x (rows ! k) =
           py_format 2 (fst (app_generate_imu_sample (now (tks ! k))
             (if even (k div 20) then ''extension'' else ''flexion'')
             (rnd_accel_y (tks ! k)) (rnd_accel_z (tks ! k))
             (rnd_gyro_y (tks ! k)) (rnd_gyro_z (tks ! k)))))) \<and>
   (\<exists>s. sim_row tk c = Inr s \<and>
        accel_x s = py_format 2 (fst (sim_generate_imu_sample (now tk) (sim_exercise_phase c)
                      (rnd_accel_y tk) (rnd_accel_z tk)))) \<and>
   (\<exists>s. app_row tk c = Inr s \<and>
        accel_x s = py_format 2 (fst (app_generate_imu_sample (now tk) (app_exercise_phase c)
                      (rnd_accel_y tk) (rnd_accel_z tk) (rnd_gyro_y tk) (rnd_gyro_z tk))))"
proof -
  have p1: "sim_exercise_phase c = (if even (c div 100) then ''extension'' else ''flexion'')"
    by (simp add: sim_exercise_phase_def even_iff_mod_2_eq_zero)
  have p2: "app_exercise_phase c = (if even (c div 20) then ''extension'' else ''flexion'')"
    by (simp add: app_exercise_phase_def even_iff_mod_2_eq_zero)
  have d1: "(c + 100) div 100 = Suc (c div 100)" by simp
  have d2: "(c + 20) div 20 = Suc (c div 20)" by simp
  have t1: "sim_exercise_phase (c + 100) \<noteq> sim_exercise_phase c"
    by (simp add: sim_exercise_phase_def d1 mod_Suc)
  have t2: "app_exercise_phase (c + 20) \<noteq> app_exercise_phase c"
    by (simp add: app_exercise_phase_def d2 mod_Suc)
  let ?w = "last_n 250 (sim_rows 0 tks)"
  have lw: "length ?w = min (length tks) 250"
    by (simp add: length_last_n length_sim_rows min.commute)
  have rw: "timestamp (?w ! i) = stamp (tks ! (length tks - length ?w + i)) \<and>
         accel_x (?w ! i) =
           py_format 2 (fst (sim_generate_imu_sample
             (now (tks ! (length tks - length ?w + i)))
             (if even ((length tks - length ?w + i) div 100) then ''extension'' else ''flexion'')
             (rnd_accel_y (tks ! (length tks - length ?w + i)))
             (rnd_accel_z (tks ! (length tks - length ?w + i)))))"
    if i: "i < length ?w" for i
  proof -
    let ?k = "length tks - length ?w + i"
    have k: "?k < length tks" using i unfolding lw by (cases "length tks \<le> 250") simp_all
    have nth: "?w ! i = sim_rows 0 tks ! ?k"
      using nth_last_n [OF i] by (simp add: length_sim_rows)
    have row: "sim_row (tks ! ?k) ?k = Inr (sim_rows 0 tks ! ?k)"
      using sim_rows_nth [OF k, of 0] by simp
    obtain s where "sim_row (tks ! ?k) ?k = Inr s" "timestamp s = stamp (tks ! ?k)"
      using sim_row_ok by blast
    with row have ts: "timestamp (sim_rows 0 tks ! ?k) = stamp (tks ! ?k)" by simp
    show ?thesis
      unfolding nth using ts sim_row_accel_x [OF row] by simp
  qed
  have r1: "\<exists>st rows. sim_run_simulator tks fs = Inr st \<and> sample_count st = length tks \<and>
      stream st = Some (Header # map Row rows) \<and> length rows = min (length tks) 250 \<and>
      (\<forall>i<length rows.
         timestamp (rows ! i) = stamp (tks ! (length tks - length rows + i)) \<and>
         accel_x (rows ! i) =
           py_format 2 (fst (sim_generate_imu_sample
             (now (tks ! (length tks - length rows + i)))
             (if even ((length tks - length rows + i) div 100) then ''extension'' else ''flexion'')
             (rnd_accel_y (tks ! (length tks - length rows + i)))
             (rnd_accel_z (tks ! (length tks - length rows + i))))))"
    apply (rule exI [of _ "\<lparr>sample_count = length tks, stream = Some (Header # map Row ?w)\<rparr>"])
    apply (rule exI [of _ ?w])
    using lw rw by (simp add: sim_run_simulator_window)
  let ?a = "app_rows 0 tks"
  have ra: "timestamp (?a ! k) = stamp (tks ! k) \<and>
         accel_x (?a ! k) =
           py_format 2 (fst (app_generate_imu_sample (now (tks ! k))
             (if even (k div 20) then ''extension'' else ''flexion'')
             (rnd_accel_y (tks ! k)) (rnd_accel_z (tks ! k))
             (rnd_gyro_y (tks ! k)) (rnd_gyro_z (tks ! k))))"
    if k: "k < length tks" for k
  proof -
    have row: "app_row (tks ! k) k = Inr (?a ! k)"
      using app_rows_nth [OF k, of 0] by simp
    obtain s where "app_row (tks ! k) k = Inr s" "timestamp s = stamp (tks ! k)"
      using app_row_ok by blast
    with row have ts: "timestamp (?a ! k) = stamp (tks ! k)" by simp
    show ?thesis
      using ts app_row_accel_x [OF row] by simp
  qed
  have r2: "\<exists>st rows. app_run_simulator tks fs = Inr st \<and> sample_count st = length tks \<and>
      stream st = Some (Header # map Row rows) \<and> length rows = length tks \<and>
      (\<forall>k<length tks.
         timestamp (rows ! k) = stamp (tks ! k) \<and>
         accel_x (rows ! k) =
           py_format 2 (fst (app_generate_imu_sample (now (tks ! k))
             (if even (k div 20) then ''extension'' else ''flexion'')
             (rnd_accel_y (tks ! k)) (rnd_accel_z (tks ! k))
             (rnd_gyro_y (tks ! k)) (rnd_gyro_z (tks ! k)))))"
    apply (rule exI [of _ "\<lparr>sample_count = length tks, stream = Some (Header # map Row ?a)\<rparr>"])
    apply (rule exI [of _ ?a])
    using ra by (simp add: app_run_simulator_stream length_app_rows)
  obtain s1 where s1: "sim_row tk c = Inr s1" using sim_row_ok by blast
  have a1: "\<exists>s. sim_row tk c = Inr s \<and>
        accel_x s = py_format 2 (fst (sim_generate_imu_sample (now tk) (sim_exercise_phase c)
                      (rnd_accel_y tk) (rnd_accel_z tk)))"
    using s1 sim_row_accel_x [OF s1] by (simp add: p1)
  obtain s2 where s2: "app_row tk c = Inr s2" using app_row_ok by blast
  have a2: "\<exists>s. app_row tk c = Inr s \<and>
        accel_x s = py_format 2 (fst (app_generate_imu_sample (now tk) (app_exercise_phase c)
                      (rnd_accel_y tk) (rnd_accel_z tk) (rnd_gyro_y tk) (rnd_gyro_z tk)))"
    using s2 app_row_accel_x [OF s2] by (simp add: p2)
  show ?thesis
    using p1 p2 t1 t2 r1 r2 a1 a2 by blast
qed

theorem exercise_phase_by_count_witness:
  "sim_exercise_phase 120 = ''flexion'' \<and> app_exercise_phase 120 = ''extension'' \<and>
   sim_exercise_phase 220 = ''extension'' \<and> app_exercise_phase 140 = ''flexion'' \<and>
   (\<exists>st rows. sim_run_simulator (map tick_at [0..<260]) None = Inr st \<and>
      sample_count st = 260 \<and> stream st = Some (Header # map Row rows) \<and> length rows = 250 \<and>
      accel_x (rows ! 100) =
        py_format 2 (fst (sim_generate_imu_sample (now (tick_at 110)) ''flexion'' 0 0)) \<and>
      accel_x (rows ! 200) =
        py_format 2 (fst (sim_generate_imu_sample (now (tick_at 210)) ''extension'' 0 0))) \<and>
   (\<exists>st rows. app_run_simulator (map tick_at [0..<50]) None = Inr st \<and>
      sample_count st = 50 \<and> stream st = Some (Header # map Row rows) \<and> length rows = 50 \<and>
      accel_x (rows ! 25) =
        py_format 2 (fst (app_generate_imu_sample (now (tick_at 25)) ''flexion'' 0 0 0 0)) \<and>
      accel_x (rows ! 45) =
        py_format 2 (fst (app_generate_imu_sample (now (tick_at 45)) ''extension'' 0 0 0 0)))"
proof -
  let ?t260 = "map tick_at [0..<260]"
  let ?t50 = "map tick_at [0..<50]"
  note w1 = exercise_phase_by_count [of 120 ?t260 None "tick_at 0"]
  note w2 = exercise_phase_by_count [of 220 ?t50 None "tick_at 0"]
  note w3 = exercise_phase_by_count [of 140 ?t50 None "tick_at 0"]
  have ph: "sim_exercise_phase 120 = ''flexion''" "app_exercise_phase 120 = ''extension''"
           "sim_exercise_phase 220 = ''extension''" "app_exercise_phase 140 = ''flexion''"
    using w1 w2 w3 by simp_all
  from w1 obtain st rows where sim:
    "sim_run_simulator ?t260 None = Inr st" "sample_count st = length ?t260"
    "stream st = Some (Header # map Row rows)" "length rows = min (length ?t260) 250"
    "\<forall>i<length rows.
         timestamp (rows ! i) = stamp (?t260 ! (length ?t260 - length rows + i)) \<and>
         accel_x (rows ! i) =
           py_format 2 (fst (sim_generate_imu_sample
             (now (?t260 ! (length ?t260 - length rows + i)))
             (if even ((length ?t260 - length rows + i) div 100) then ''extension'' else ''flexion'')
             (rnd_accel_y (?t260 ! (length ?t260 - length rows + i)))
             (rnd_accel_z (?t260 ! (length ?t260 - length rows + i)))))"
    by blast
  have l250: "length rows = 250" using sim(4) by simp
  have i100: "accel_x (rows ! 100) =
        py_format 2 (fst (sim_generate_imu_sample (now (tick_at 110)) ''flexion'' 0 0))"
    using sim(5) [rule_format, of 100] by (simp add: l250 tick_at_def)
  have i200: "accel_x (rows ! 200) =
        py_format 2 (fst (sim_generate_imu_sample (now (tick_at 210)) ''extension'' 0 0))"
    using sim(5) [rule_format, of 200] by (simp add: l250 tick_at_def)
  from w2 obtain st' rows' where app:
    "app_run_simulator ?t50 None = Inr st'" "sample_count st' = length ?t50"
    "stream st' = Some (Header # map Row rows')" "length rows' = length ?t50"
    "\<forall>k<length ?t50.
         timestamp (rows' ! k) = stamp (?t50 ! k) \<and>
         accel_x (rows' ! k) =
           py_format 2 (fst (app_generate_imu_sample (now (?t50 ! k))
             (if even (k div 20) then ''extension'' else ''flexion'')
             (rnd_accel_y (?t50 ! k)) (rnd_accel_z (?t50 ! k))
             (rnd_gyro_y (?t50 ! k)) (rnd_gyro_z (?t50 ! k))))"
    by blast
  have k25: "accel_x (rows' ! 25) =
        py_format 2 (fst (app_generate_imu_sample (now (tick_at 25)) ''flexion'' 0 0 0 0))"
    using app(5) [rule_format, of 25] by (simp add: tick_at_def)
  have k45: "accel_x (rows' ! 45) =
        py_format 2 (fst (app_generate_imu_sample (now (tick_at 45)) ''extension'' 0 0 0 0))"
    using app(5) [rule_format, of 45] by (simp add: tick_at_def)
  have s1: "\<exists>st rows. sim_run_simulator ?t260 None = Inr st \<and>
      sample_count st = 260 \<and> stream st = Some (Header # map Row rows) \<and> length rows = 250 \<and>
      accel_x (rows ! 100) =
        py_format 2 (fst (sim_generate_imu_sample (now (tick_at 110)) ''flexion'' 0 0)) \<and>
      accel_x (rows ! 200) =
        py_format 2 (fst (sim_generate_imu_sample (now (tick_at 210)) ''extension'' 0 0))"
    using sim(1,2,3) l250 i100 i200 by auto
  have s2: "\<exists>st rows. app_run_simulator ?t50 None = Inr st \<and>
      sample_count st = 50 \<and> stream st = Some (Header # map Row rows) \<and> length rows = 50 \<and>
      accel_x (rows ! 25) =
        py_format 2 (fst (app_generate_imu_sample (now (tick_at 25)) ''flexion'' 0 0 0 0)) \<and>
      accel_x (rows ! 45) =
        py_format 2 (fst (app_generate_imu_sample (now (tick_at 45)) ''extension'' 0 0 0 0))"
    using app(1,2,3,4) k25 k45 by auto
  show ?thesis using ph s1 s2 by blast
qed

text \<open>
  Claim C5. Every row produced by \<^verbatim>\<open>app.py\<close> has the ECG status
  \<open>RED_FLAG_ARRHYTHMIA\<close> exactly when the magnitude of the noise drawn for it exceeds
  0.12, and \<open>NORMAL\<close> otherwise; and the IMU status \<open>RED_FLAG_FATIGUE\<close> exactly when
  the magnitude of \<open>accel_y\<close> exceeds 5 or that of \<open>gyro_y\<close> exceeds 3, and \<open>NORMAL\<close>
  otherwise. Every row produced by \<^verbatim>\<open>simulator.py\<close> has both statuses \<open>NORMAL\<close>,
  which is what a threshold gives that no draw exceeds: for every bound \<open>b\<close> on the
  magnitude of the noise (drawn with standard deviation 0.01) the ECG status is the
  one of the threshold \<open>b\<close>, and for every bound \<open>b'\<close> on the magnitude of \<open>accel_y\<close>
  (drawn with standard deviation 0.2) the IMU status is the one of the threshold
  \<open>b'\<close>.
\<close>

theorem status_derivation:
  "(\<exists>s. app_row tk c = Inr s \<and>
      status_ecg s = (if \<bar>noise tk\<bar> > 0.12 then ''RED_FLAG_ARRHYTHMIA'' else ''NORMAL'') \<and>
      status_imu s = (if \<bar>rnd_accel_y tk\<bar> > 5 \<or> \<bar>rnd_gyro_y tk\<bar> > 3
                      then ''RED_FLAG_FATIGUE'' else ''NORMAL'')) \<and>
   (\<exists>s. sim_row tk c = Inr s \<and> status_ecg s = ''NORMAL'' \<and> status_imu s = ''NORMAL'' \<and>
      (\<bar>noise tk\<bar> \<le> b \<longrightarrow>
         status_ecg s = (if \<bar>noise tk\<bar> > b then ''RED_FLAG_ARRHYTHMIA'' else ''NORMAL'')) \<and>
      (\<bar>rnd_accel_y tk\<bar> \<le> b' \<longrightarrow>
         status_imu s = (if \<bar>rnd_accel_y tk\<bar> > b' then ''RED_FLAG_FATIGUE'' else ''NORMAL'')))"
proof -
  obtain s where s: "sim_row tk c = Inr s" "status_ecg s = ''NORMAL''" "status_imu s = ''NORMAL''"
    using sim_row_ok by blast
  then have "\<exists>s. sim_row tk c = Inr s \<and> status_ecg s = ''NORMAL'' \<and> status_imu s = ''NORMAL'' \<and>
      (\<bar>noise tk\<bar> \<le> b \<longrightarrow>
         status_ecg s = (if \<bar>noise tk\<bar> > b then ''RED_FLAG_ARRHYTHMIA'' else ''NORMAL'')) \<and>
      (\<bar>rnd_accel_y tk\<bar> \<le> b' \<longrightarrow>
         status_imu s = (if \<bar>rnd_accel_y tk\<bar> > b' then ''RED_FLAG_FATIGUE'' else ''NORMAL''))"
    by auto
  with app_row_ok [of tk c] show ?thesis by blast
qed

theorem status_derivation_witness:
  "(\<exists>s. app_row \<lparr>now = 1, stamp = ''12:00:01.000'', noise = 0.2, rnd_accel_y = 6,
                   rnd_accel_z = 10, rnd_gyro_y = 0, rnd_gyro_z = 0\<rparr> 0 = Inr s \<and>
        status_ecg s = ''RED_FLAG_ARRHYTHMIA'' \<and> status_imu s = ''RED_FLAG_FATIGUE'') \<and>
   (\<exists>s. app_row \<lparr>now = 1, stamp = ''12:00:01.000'', noise = 0.1, rnd_accel_y = 0,
                   rnd_accel_z = 10, rnd_gyro_y = 3.5, rnd_gyro_z = 0\<rparr> 0 = Inr s \<and>
        status_ecg s = ''NORMAL'' \<and> status_imu s = ''RED_FLAG_FATIGUE'') \<and>
   (\<exists>s. sim_row \<lparr>now = 1, stamp = ''12:00:01.000'', noise = 0.03, rnd_accel_y = 0.5,
                   rnd_accel_z = 0.1, rnd_gyro_y = 0, rnd_gyro_z = 0\<rparr> 0 = Inr s \<and>
        status_ecg s = (if \<bar>0.03 :: real\<bar> > 0.12 then ''RED_FLAG_ARRHYTHMIA'' else ''NORMAL'') \<and>
        status_imu s = (if \<bar>0.5 :: real\<bar> > 5 then ''RED_FLAG_FATIGUE'' else ''NORMAL'') \<and>
        status_ecg s = ''NORMAL'' \<and> status_imu s = ''NORMAL'')"
  using status_derivation [of "\<lparr>now = 1, stamp = ''12:00:01.000'', noise = 0.2, rnd_accel_y = 6,
                   rnd_accel_z = 10, rnd_gyro_y = 0, rnd_gyro_z = 0\<rparr>" 0 0 0]
        status_derivation [of "\<lparr>now = 1, stamp = ''12:00:01.000'', noise = 0.1, rnd_accel_y = 0,
                   rnd_accel_z = 10, rnd_gyro_y = 3.5, rnd_gyro_z = 0\<rparr>" 0 0 0]
        status_derivation [of "\<lparr>now = 1, stamp = ''12:00:01.000'', noise = 0.03, rnd_accel_y = 0.5,
                   rnd_accel_z = 0.1, rnd_gyro_y = 0, rnd_gyro_z = 0\<rparr>" 0 "0.12" 5]
  by simp

lemma sin_ge_half:
  assumes "pi / 6 \<le> x" "x \<le> 5 * pi / 6"
  shows "1 / 2 \<le> sin x"
proof (cases "x \<le> pi / 2")
  case True
  have "sin (pi / 6) \<le> sin x"
    by (rule sin_monotone_2pi_le) (use assms True in simp_all)
  then show ?thesis by (simp add: sin_30)
next
  case False
  have "sin (pi / 6) \<le> sin (pi - x)"
    by (rule sin_monotone_2pi_le) (use assms False in simp_all)
  then show ?thesis by (simp add: sin_30)
qed

lemma sin_5_le: "sin (5 :: real) \<le> - (1 / 2)"
proof -
  have "sin (pi / 6) \<le> pi / 6"
    by (rule sin_x_le_x) simp
  then have "3 \<le> pi" by (simp add: sin_30)
  moreover have "pi < 4" by (rule pi_less_4)
  ultimately have "1 / 2 \<le> sin (5 - pi)"
    by (intro sin_ge_half) simp_all
  moreover have "sin (5 - pi) = - sin 5"
    by simp
  ultimately show ?thesis by simp
qed

text \<open>
  Claim C4. The angle of \<^verbatim>\<open>simulator.py\<close> is clamped to the range from 0 to 100
  (\<open>sim_knee_angle_clamped\<close> below). The angle of \<^verbatim>\<open>app.py\<close> is not: at the elapsed
  time 10 s and the sample count 100, which is in the flexion phase, it is above 112.
\<close>

theorem app_knee_angle_exceeds_100:
  "112 < fst (app_generate_imu_sample 10 (app_exercise_phase 100) 0 10 0 0) \<and>
   app_exercise_phase 100 = ''flexion''"
proof -
  have ph: "app_exercise_phase 100 = ''flexion''"
    by (simp add: app_exercise_phase_def)
  have "fst (app_generate_imu_sample 10 ''flexion'' 0 10 0 0) = max 0 (90 - 45 * sin 5)"
    by (simp add: app_generate_imu_sample_def)
  with sin_5_le ph show ?thesis by simp
qed

lemma sim_knee_angle_clamped:
  "0 \<le> fst (sim_generate_imu_sample t ph ry rz) \<and> fst (sim_generate_imu_sample t ph ry rz) \<le> 100"
  by (simp add: sim_generate_imu_sample_def Let_def)

lemma app_knee_angle_range:
  "0 \<le> fst (app_generate_imu_sample t ph ry rz rgy rgz) \<and>
   fst (app_generate_imu_sample t ph ry rz rgy rgz) \<le> 135"
proof -
  have "- 1 \<le> sin (0.5 * t)" "sin (0.5 * t) \<le> 1" by simp_all
  then show ?thesis
    unfolding app_generate_imu_sample_unfold by (simp only: fst_conv split: if_split) linarith
qed

subsection \<open>The polling callbacks on a stream\<close>

text \<open>
  A stream as the producers leave it: the header, then data rows. The rows a callback
  reads are the last 50 of them (the last 100 for the doctor's monitor).
\<close>

lemma read_csv_stream:
  "read_csv (Some (Header # map Row ss)) =
     Inr \<lparr>named = True, numeric = True, rows = map Row ss\<rparr>"
  by (auto simp: read_csv_def)

lemma tail_rows:
  "tail k \<lparr>named = a, numeric = b, rows = map Row ss\<rparr> =
     \<lparr>named = a, numeric = b, rows = map Row (last_n k ss)\<rparr>"
  by (simp add: tail_def last_n_def drop_map)

lemma any_eq_status_ecg:
  "any_eq col_status_ecg flag \<lparr>named = a, numeric = b, rows = map Row w\<rparr> =
     (\<exists>s\<in>set w. status_ecg s = flag)"
  by (simp add: any_eq_def list_ex_iff)

lemma any_eq_status_imu:
  "any_eq col_status_imu flag \<lparr>named = a, numeric = b, rows = map Row w\<rparr> =
     (\<exists>s\<in>set w. status_imu s = flag)"
  by (simp add: any_eq_def list_ex_iff)

lemma py_max_Max: "xs \<noteq> [] \<Longrightarrow> py_max xs = Max (set xs)"
proof (cases xs)
  case Nil
  assume "xs \<noteq> []"
  with Nil show ?thesis by simp
next
  case (Cons x ys)
  show ?thesis using Max.set_eq_fold [of x ys] by (simp add: Cons)
qed

lemma last_n_nonempty: "0 < k \<Longrightarrow> ss \<noteq> [] \<Longrightarrow> last_n k ss \<noteq> []"
proof -
  assume "0 < k" "ss \<noteq> []"
  then have "length ss - k < length ss" by (cases ss) simp_all
  then show ?thesis by (simp add: last_n_def)
qed

lemma main_dashboard_stream:
  assumes "ss \<noteq> []"
  shows "update_main_dashboard_auto n ''/'' (Some (Header # map Row ss)) =
     Main_update
       \<lparr>fig_y = map ecg (last_n 50 ss),
        fig_color = (if \<exists>s\<in>set (last_n 50 ss). status_ecg s = ''RED_FLAG_ARRHYTHMIA''
                     then ''#ef4444'' else ''#2ebf7f''),
        fig_title = (if \<exists>s\<in>set (last_n 50 ss). status_ecg s = ''RED_FLAG_ARRHYTHMIA''
                     then ''Alerta: Arritmia Detectada'' else ''Ritmo Cardiaco Normal'')\<rparr>
       (py_format 1 (75 + Max (ecg ` set (last_n 50 ss)) * 5))"
proof -
  have ne: "last_n 50 ss \<noteq> []" using assms by (simp add: last_n_nonempty)
  have y: "number \<circ> col_ecg \<circ> Row = ecg"
    by (rule ext) simp
  have m: "py_max (map ecg (last_n 50 ss)) = Max (ecg ` set (last_n 50 ss))"
    using ne by (simp add: py_max_Max)
  show ?thesis
    using ne
    by (simp add: update_main_dashboard_auto_def read_csv_stream Let_def tail_rows
        any_eq_status_ecg y m)
qed

lemma monitor_stream:
  assumes "p \<noteq> []"
  shows "monitor_patient_health n (Some p) (Some (Header # map Row ss)) =
     Monitor_update
       ((if \<exists>s\<in>set (last_n 100 ss). status_ecg s = ''RED_FLAG_ARRHYTHMIA''
         then [Arrhythmia_alert p] else []) @
        (if \<exists>s\<in>set (last_n 100 ss). status_imu s = ''RED_FLAG_FATIGUE''
         then [Fatigue_alert] else []))
       \<lparr>doc_x = map timestamp (last_n 100 ss),
        doc_y = map (Num \<circ> ecg) (last_n 100 ss),
        doc_color = (if \<exists>s\<in>set (last_n 100 ss). status_ecg s = ''RED_FLAG_ARRHYTHMIA''
                     then ''red'' else ''green'')\<rparr>"
  using assms
  by (simp add: monitor_patient_health_def read_csv_stream Let_def tail_rows
      any_eq_status_ecg any_eq_status_imu comp_def)

lemma sensor_charts_stream:
  assumes "2 \<le> length ss"
  shows "update_sensor_charts n True (Some (Header # map Row ss)) =
     (Line_fig (pad50 (map (Num \<circ> ecg) (last_n 50 ss)))
        (if \<exists>s\<in>set (last_n 50 ss). status_ecg s = ''RED_FLAG_ARRHYTHMIA''
         then ''#ef4444'' else ''#10b981''),
      Line_fig (pad50 (map (Num \<circ> accel_x) (last_n 50 ss)))
        (if \<exists>s\<in>set (last_n 50 ss). status_imu s = ''RED_FLAG_FATIGUE''
         then ''#f59e0b'' else ''#3b82f6''),
      if \<exists>s\<in>set (last_n 50 ss). status_ecg s = ''RED_FLAG_ARRHYTHMIA''
      then ''ARRITMIA DETECTADA'' else ''Ritmo Normal'',
      if \<exists>s\<in>set (last_n 50 ss). status_imu s = ''RED_FLAG_FATIGUE''
      then ''FATIGA DETECTADA'' else ''Movimiento Fluido'')"
proof -
  have len: "2 \<le> length (last_n 50 ss)" using assms by (simp add: length_last_n)
  then have ne: "last_n 50 ss \<noteq> []" by auto
  show ?thesis
    using len ne
    by (simp add: update_sensor_charts_def read_csv_stream Let_def tail_rows
        any_eq_status_ecg any_eq_status_imu comp_def)
qed

lemma sensor_charts_short:
  assumes "length ss < 2"
  shows "update_sensor_charts n True (Some (Header # map Row ss)) =
     (Chart_no_update, Chart_no_update, ''Recolectando...'', ''Recolectando...'')"
proof -
  have len: "length (last_n 50 ss) < 2" using assms by (simp add: length_last_n)
  show ?thesis
    using len
    by (simp add: update_sensor_charts_def read_csv_stream Let_def tail_rows)
qed

text \<open>
  Claim C6. When the stream file does not exist, no callback reads it and none raises:
  the dashboard and the doctor's monitor leave their outputs unchanged, and the sensor
  charts show empty figures with the text that data is awaited.
\<close>

theorem reader_missing_transport:
  "update_main_dashboard_auto n pathname None = Main_no_update \<and>
   monitor_patient_health n selected_patient None = Monitor_no_update \<and>
   update_sensor_charts n is_open None =
     (Empty_fig, Empty_fig, ''Esperando datos...'', ''Esperando datos...'')"
  by (simp add: update_main_dashboard_auto_def monitor_patient_health_def
      update_sensor_charts_def split: option.split)

theorem reader_missing_transport_witness:
  "update_main_dashboard_auto 0 ''/'' None = Main_no_update \<and>
   monitor_patient_health 0 (Some ''ana'') None = Monitor_no_update \<and>
   update_sensor_charts 0 True None =
     (Empty_fig, Empty_fig, ''Esperando datos...'', ''Esperando datos...'')"
  using reader_missing_transport [of 0 "''/''" "Some ''ana''" True] by simp

lemma round_half_even_near: "\<bar>of_int (round_half_even y) - y\<bar> \<le> 1 / 2"
proof -
  have "of_int \<lfloor>y\<rfloor> \<le> y" "y < of_int \<lfloor>y\<rfloor> + 1" by linarith+
  then show ?thesis
    by (auto simp: round_half_even_def Let_def)
qed

lemma py_format_near: "\<bar>py_format d x - x\<bar> \<le> 1 / (2 * 10 ^ d)"
proof -
  have p: "(0::real) < 10 ^ d" by simp
  have "py_format d x - x = (of_int (round_half_even (x * 10 ^ d)) - x * 10 ^ d) / 10 ^ d"
    by (simp add: py_format_def diff_divide_distrib)
  then have "\<bar>py_format d x - x\<bar> = \<bar>of_int (round_half_even (x * 10 ^ d)) - x * 10 ^ d\<bar> / 10 ^ d"
    by simp
  also have "\<dots> \<le> (1 / 2) / 10 ^ d"
    by (rule divide_right_mono [OF round_half_even_near]) simp
  finally show ?thesis by simp
qed

text \<open>
  Claim C3, as amended. On every stream, the dashboard (for rows read that are not
  empty) and the doctor's monitor report the arrhythmia flag if and only if at least one
  of the rows read carries the status \<open>RED_FLAG_ARRHYTHMIA\<close>, wherever in the rows read
  it stands. The sensor charts do so when at least two rows were read; with fewer than
  two rows they report that data is being collected, whatever the statuses.
\<close>

theorem arrhythmia_flag_or_reduction:
  "(ss \<noteq> [] \<longrightarrow>
      (\<exists>fig shown. update_main_dashboard_auto n ''/'' (Some (Header # map Row ss)) =
           Main_update fig shown \<and>
         (fig_title fig = ''Alerta: Arritmia Detectada'') =
           (\<exists>s\<in>set (last_n 50 ss). status_ecg s = ''RED_FLAG_ARRHYTHMIA'') \<and>
         (fig_title fig = ''Ritmo Cardiaco Normal'') =
           (\<not> (\<exists>s\<in>set (last_n 50 ss). status_ecg s = ''RED_FLAG_ARRHYTHMIA'')))) \<and>
   (p \<noteq> [] \<longrightarrow>
      (\<exists>alerts fig. monitor_patient_health n (Some p) (Some (Header # map Row ss)) =
           Monitor_update alerts fig \<and>
         (Arrhythmia_alert p \<in> set alerts) =
           (\<exists>s\<in>set (last_n 100 ss). status_ecg s = ''RED_FLAG_ARRHYTHMIA'') \<and>
         (doc_color fig = ''red'') =
           (\<exists>s\<in>set (last_n 100 ss). status_ecg s = ''RED_FLAG_ARRHYTHMIA''))) \<and>
   (2 \<le> length ss \<longrightarrow>
      (\<exists>fig_ecg fig_imu ecg_msg imu_msg.
         update_sensor_charts n True (Some (Header # map Row ss)) =
           (fig_ecg, fig_imu, ecg_msg, imu_msg) \<and>
         (ecg_msg = ''ARRITMIA DETECTADA'') =
           (\<exists>s\<in>set (last_n 50 ss). status_ecg s = ''RED_FLAG_ARRHYTHMIA'') \<and>
         (ecg_msg = ''Ritmo Normal'') =
           (\<not> (\<exists>s\<in>set (last_n 50 ss). status_ecg s = ''RED_FLAG_ARRHYTHMIA'')))) \<and>
   (length ss < 2 \<longrightarrow>
      update_sensor_charts n True (Some (Header # map Row ss)) =
        (Chart_no_update, Chart_no_update, ''Recolectando...'', ''Recolectando...''))"
proof -
  have a: "\<exists>fig shown. update_main_dashboard_auto n ''/'' (Some (Header # map Row ss)) =
           Main_update fig shown \<and>
         (fig_title fig = ''Alerta: Arritmia Detectada'') =
           (\<exists>s\<in>set (last_n 50 ss). status_ecg s = ''RED_FLAG_ARRHYTHMIA'') \<and>
         (fig_title fig = ''Ritmo Cardiaco Normal'') =
           (\<not> (\<exists>s\<in>set (last_n 50 ss). status_ecg s = ''RED_FLAG_ARRHYTHMIA''))"
    if "ss \<noteq> []"
    by (simp add: main_dashboard_stream [OF that])
  have b: "\<exists>alerts fig. monitor_patient_health n (Some p) (Some (Header # map Row ss)) =
           Monitor_update alerts fig \<and>
         (Arrhythmia_alert p \<in> set alerts) =
           (\<exists>s\<in>set (last_n 100 ss). status_ecg s = ''RED_FLAG_ARRHYTHMIA'') \<and>
         (doc_color fig = ''red'') =
           (\<exists>s\<in>set (last_n 100 ss). status_ecg s = ''RED_FLAG_ARRHYTHMIA'')"
    if "p \<noteq> []"
    by (simp add: monitor_stream [OF that])
  have c: "\<exists>fig_ecg fig_imu ecg_msg imu_msg.
         update_sensor_charts n True (Some (Header # map Row ss)) =
           (fig_ecg, fig_imu, ecg_msg, imu_msg) \<and>
         (ecg_msg = ''ARRITMIA DETECTADA'') =
           (\<exists>s\<in>set (last_n 50 ss). status_ecg s = ''RED_FLAG_ARRHYTHMIA'') \<and>
         (ecg_msg = ''Ritmo Normal'') =
           (\<not> (\<exists>s\<in>set (last_n 50 ss). status_ecg s = ''RED_FLAG_ARRHYTHMIA''))"
    if "2 \<le> length ss"
    by (simp add: sensor_charts_stream [OF that])
  show ?thesis
    using a b c sensor_charts_short [of ss n] by blast
qed

theorem arrhythmia_flag_or_reduction_witness:
  "(\<exists>fig shown.
      update_main_dashboard_auto 0 ''/''
        (Some (Header # map Row [flagged ''RED_FLAG_ARRHYTHMIA'' ''NORMAL'' 0,
           flagged ''NORMAL'' ''NORMAL'' 0, flagged ''NORMAL'' ''NORMAL'' 0])) =
        Main_update fig shown \<and> fig_title fig = ''Alerta: Arritmia Detectada'') \<and>
   (\<exists>alerts fig.
      monitor_patient_health 0 (Some ''ana'')
        (Some (Header # map Row [flagged ''RED_FLAG_ARRHYTHMIA'' ''NORMAL'' 0,
           flagged ''NORMAL'' ''NORMAL'' 0, flagged ''NORMAL'' ''NORMAL'' 0])) =
        Monitor_update alerts fig \<and> Arrhythmia_alert ''ana'' \<in> set alerts) \<and>
   (\<exists>fig_ecg fig_imu imu_msg.
      update_sensor_charts 0 True
        (Some (Header # map Row [flagged ''RED_FLAG_ARRHYTHMIA'' ''NORMAL'' 0,
           flagged ''NORMAL'' ''NORMAL'' 0, flagged ''NORMAL'' ''NORMAL'' 0])) =
        (fig_ecg, fig_imu, ''ARRITMIA DETECTADA'', imu_msg)) \<and>
   update_sensor_charts 0 True (Some (Header # map Row [flagged ''RED_FLAG_ARRHYTHMIA'' ''NORMAL'' 0])) =
     (Chart_no_update, Chart_no_update, ''Recolectando...'', ''Recolectando...'')"
proof -
  let ?ss = "[flagged ''RED_FLAG_ARRHYTHMIA'' ''NORMAL'' 0,
           flagged ''NORMAL'' ''NORMAL'' 0, flagged ''NORMAL'' ''NORMAL'' 0]"
  have red: "\<exists>s\<in>set (last_n 50 ?ss). status_ecg s = ''RED_FLAG_ARRHYTHMIA''"
       "\<exists>s\<in>set (last_n 100 ?ss). status_ecg s = ''RED_FLAG_ARRHYTHMIA''"
    by (simp_all add: last_n_def flagged_def)
  have h: "?ss \<noteq> []" "''ana'' \<noteq> []" "2 \<le> length ?ss"
          "length [flagged ''RED_FLAG_ARRHYTHMIA'' ''NORMAL'' 0] < 2"
    by simp_all
  show ?thesis
    using arrhythmia_flag_or_reduction [of ?ss 0 "''ana''"]
          arrhythmia_flag_or_reduction [of "[flagged ''RED_FLAG_ARRHYTHMIA'' ''NORMAL'' 0]" 0 "''ana''"]
          red h
    by (metis (no_types, lifting))
qed

text \<open>
  The claim as first stated fails on the sensor charts: a stream of one row that carries
  the flag is answered with the collecting text, not with the flag.
\<close>

theorem sensor_charts_single_flagged_row:
  "update_sensor_charts 0 True
     (Some [Header, Row (flagged ''RED_FLAG_ARRHYTHMIA'' ''NORMAL'' 0)]) =
     (Chart_no_update, Chart_no_update, ''Recolectando...'', ''Recolectando...'') \<and>
   status_ecg (flagged ''RED_FLAG_ARRHYTHMIA'' ''NORMAL'' 0) = ''RED_FLAG_ARRHYTHMIA''"
  using sensor_charts_short [of "[flagged ''RED_FLAG_ARRHYTHMIA'' ''NORMAL'' 0]" 0]
  by (simp add: flagged_def)

text \<open>
  Claim C8. The callbacks classify the last 50 rows of the stream (the doctor's monitor
  the last 100), not all of it. When no row among those carries \<open>RED_FLAG_ARRHYTHMIA\<close>
  the ECG result is the normal one, and when none carries \<open>RED_FLAG_FATIGUE\<close> so is
  the IMU result, whatever the rows before them carry; and two streams with the same
  last rows get the same answer.
\<close>

theorem classification_reads_tail_only:
  "(ss \<noteq> [] \<longrightarrow>
      (\<exists>fig shown. update_main_dashboard_auto n ''/'' (Some (Header # map Row ss)) =
           Main_update fig shown \<and>
         ((\<forall>s\<in>set (last_n 50 ss). status_ecg s \<noteq> ''RED_FLAG_ARRHYTHMIA'') \<longrightarrow>
            fig_title fig = ''Ritmo Cardiaco Normal'' \<and> fig_color fig = ''#2ebf7f''))) \<and>
   (2 \<le> length ss \<longrightarrow>
      (\<exists>fig_ecg fig_imu ecg_msg imu_msg.
         update_sensor_charts n True (Some (Header # map Row ss)) =
           (fig_ecg, fig_imu, ecg_msg, imu_msg) \<and>
         ((\<forall>s\<in>set (last_n 50 ss). status_ecg s \<noteq> ''RED_FLAG_ARRHYTHMIA'') \<longrightarrow>
            ecg_msg = ''Ritmo Normal'') \<and>
         ((\<forall>s\<in>set (last_n 50 ss). status_imu s \<noteq> ''RED_FLAG_FATIGUE'') \<longrightarrow>
            imu_msg = ''Movimiento Fluido''))) \<and>
   (p \<noteq> [] \<longrightarrow>
      (\<exists>alerts fig. monitor_patient_health n (Some p) (Some (Header # map Row ss)) =
           Monitor_update alerts fig \<and>
         ((\<forall>s\<in>set (last_n 100 ss). status_ecg s \<noteq> ''RED_FLAG_ARRHYTHMIA'') \<longrightarrow>
            Arrhythmia_alert p \<notin> set alerts \<and> doc_color fig = ''green'') \<and>
         ((\<forall>s\<in>set (last_n 100 ss). status_imu s \<noteq> ''RED_FLAG_FATIGUE'') \<longrightarrow>
            Fatigue_alert \<notin> set alerts))) \<and>
   (ss \<noteq> [] \<and> ss' \<noteq> [] \<and> last_n 50 ss = last_n 50 ss' \<longrightarrow>
      update_main_dashboard_auto n ''/'' (Some (Header # map Row ss)) =
      update_main_dashboard_auto n ''/'' (Some (Header # map Row ss'))) \<and>
   (2 \<le> length ss \<and> 2 \<le> length ss' \<and> last_n 50 ss = last_n 50 ss' \<longrightarrow>
      update_sensor_charts n True (Some (Header # map Row ss)) =
      update_sensor_charts n True (Some (Header # map Row ss'))) \<and>
   (p \<noteq> [] \<and> last_n 100 ss = last_n 100 ss' \<longrightarrow>
      monitor_patient_health n (Some p) (Some (Header # map Row ss)) =
      monitor_patient_health n (Some p) (Some (Header # map Row ss')))"
proof -
  have a: "\<exists>fig shown. update_main_dashboard_auto n ''/'' (Some (Header # map Row ss)) =
           Main_update fig shown \<and>
         ((\<forall>s\<in>set (last_n 50 ss). status_ecg s \<noteq> ''RED_FLAG_ARRHYTHMIA'') \<longrightarrow>
            fig_title fig = ''Ritmo Cardiaco Normal'' \<and> fig_color fig = ''#2ebf7f'')"
    if "ss \<noteq> []"
    by (simp add: main_dashboard_stream [OF that])
  have b: "\<exists>fig_ecg fig_imu ecg_msg imu_msg.
         update_sensor_charts n True (Some (Header # map Row ss)) =
           (fig_ecg, fig_imu, ecg_msg, imu_msg) \<and>
         ((\<forall>s\<in>set (last_n 50 ss). status_ecg s \<noteq> ''RED_FLAG_ARRHYTHMIA'') \<longrightarrow>
            ecg_msg = ''Ritmo Normal'') \<and>
         ((\<forall>s\<in>set (last_n 50 ss). status_imu s \<noteq> ''RED_FLAG_FATIGUE'') \<longrightarrow>
            imu_msg = ''Movimiento Fluido'')"
    if "2 \<le> length ss"
    by (simp add: sensor_charts_stream [OF that])
  have c: "\<exists>alerts fig. monitor_patient_health n (Some p) (Some (Header # map Row ss)) =
           Monitor_update alerts fig \<and>
         ((\<forall>s\<in>set (last_n 100 ss). status_ecg s \<noteq> ''RED_FLAG_ARRHYTHMIA'') \<longrightarrow>
            Arrhythmia_alert p \<notin> set alerts \<and> doc_color fig = ''green'') \<and>
         ((\<forall>s\<in>set (last_n 100 ss). status_imu s \<noteq> ''RED_FLAG_FATIGUE'') \<longrightarrow>
            Fatigue_alert \<notin> set alerts)"
    if "p \<noteq> []"
    by (simp add: monitor_stream [OF that])
  have d: "update_main_dashboard_auto n ''/'' (Some (Header # map Row ss)) =
      update_main_dashboard_auto n ''/'' (Some (Header # map Row ss'))"
    if "ss \<noteq> []" "ss' \<noteq> []" "last_n 50 ss = last_n 50 ss'"
    by (simp only: main_dashboard_stream [OF that(1)] main_dashboard_stream [OF that(2)] that(3))
  have e: "update_sensor_charts n True (Some (Header # map Row ss)) =
      update_sensor_charts n True (Some (Header # map Row ss'))"
    if "2 \<le> length ss" "2 \<le> length ss'" "last_n 50 ss = last_n 50 ss'"
    by (simp only: sensor_charts_stream [OF that(1)] sensor_charts_stream [OF that(2)] that(3))
  have f: "monitor_patient_health n (Some p) (Some (Header # map Row ss)) =
      monitor_patient_health n (Some p) (Some (Header # map Row ss'))"
    if "p \<noteq> []" "last_n 100 ss = last_n 100 ss'"
    by (simp only: monitor_stream [OF that(1)] that(2))
  show ?thesis
    using a b c d e f by blast
qed

theorem classification_reads_tail_only_witness:
  "(\<exists>fig shown.
      update_main_dashboard_auto 0 ''/''
        (Some (Header # map Row (flagged ''RED_FLAG_ARRHYTHMIA'' ''RED_FLAG_FATIGUE'' 0 #
                 replicate 50 (flagged ''NORMAL'' ''NORMAL'' 0)))) =
        Main_update fig shown \<and> fig_title fig = ''Ritmo Cardiaco Normal'') \<and>
   (\<exists>fig_ecg fig_imu.
      update_sensor_charts 0 True
        (Some (Header # map Row (flagged ''RED_FLAG_ARRHYTHMIA'' ''RED_FLAG_FATIGUE'' 0 #
                 replicate 50 (flagged ''NORMAL'' ''NORMAL'' 0)))) =
        (fig_ecg, fig_imu, ''Ritmo Normal'', ''Movimiento Fluido'')) \<and>
   (\<exists>fig.
      monitor_patient_health 0 (Some ''ana'')
        (Some (Header # map Row (flagged ''RED_FLAG_ARRHYTHMIA'' ''RED_FLAG_FATIGUE'' 0 #
                 replicate 100 (flagged ''NORMAL'' ''NORMAL'' 0)))) =
        Monitor_update [] fig \<and> doc_color fig = ''green'') \<and>
   update_main_dashboard_auto 0 ''/''
     (Some (Header # map Row (flagged ''RED_FLAG_ARRHYTHMIA'' ''RED_FLAG_FATIGUE'' 0 #
              replicate 50 (flagged ''NORMAL'' ''NORMAL'' 0)))) =
   update_main_dashboard_auto 0 ''/''
     (Some (Header # map Row (replicate 50 (flagged ''NORMAL'' ''NORMAL'' 0)))) \<and>
   update_sensor_charts 0 True
     (Some (Header # map Row (flagged ''RED_FLAG_ARRHYTHMIA'' ''RED_FLAG_FATIGUE'' 0 #
              replicate 50 (flagged ''NORMAL'' ''NORMAL'' 0)))) =
   update_sensor_charts 0 True
     (Some (Header # map Row (replicate 50 (flagged ''NORMAL'' ''NORMAL'' 0)))) \<and>
   monitor_patient_health 0 (Some ''ana'')
     (Some (Header # map Row (flagged ''RED_FLAG_ARRHYTHMIA'' ''RED_FLAG_FATIGUE'' 0 #
              replicate 100 (flagged ''NORMAL'' ''NORMAL'' 0)))) =
   monitor_patient_health 0 (Some ''ana'')
     (Some (Header # map Row (replicate 100 (flagged ''NORMAL'' ''NORMAL'' 0))))"
proof -
  let ?red = "flagged ''RED_FLAG_ARRHYTHMIA'' ''RED_FLAG_FATIGUE'' 0"
  let ?ok = "flagged ''NORMAL'' ''NORMAL'' 0"
  have t50: "last_n 50 (?red # replicate 50 ?ok) = replicate 50 ?ok"
            "last_n 50 (replicate 50 ?ok) = replicate 50 ?ok"
    by (simp_all add: last_n_def)
  have t100: "last_n 100 (?red # replicate 100 ?ok) = replicate 100 ?ok"
             "last_n 100 (replicate 100 ?ok) = replicate 100 ?ok"
    by (simp_all add: last_n_def)
  have ok: "status_ecg ?ok \<noteq> ''RED_FLAG_ARRHYTHMIA''" "status_imu ?ok \<noteq> ''RED_FLAG_FATIGUE''"
    by (simp_all add: flagged_def)
  have h50: "\<forall>s\<in>set (last_n 50 (?red # replicate 50 ?ok)). status_ecg s \<noteq> ''RED_FLAG_ARRHYTHMIA''"
            "\<forall>s\<in>set (last_n 50 (?red # replicate 50 ?ok)). status_imu s \<noteq> ''RED_FLAG_FATIGUE''"
    unfolding t50 using ok by simp_all
  have h100: "\<forall>s\<in>set (last_n 100 (?red # replicate 100 ?ok)). status_ecg s \<noteq> ''RED_FLAG_ARRHYTHMIA''"
             "\<forall>s\<in>set (last_n 100 (?red # replicate 100 ?ok)). status_imu s \<noteq> ''RED_FLAG_FATIGUE''"
    unfolding t100 using ok by simp_all
  have ne: "?red # replicate 50 ?ok \<noteq> []" "replicate 50 ?ok \<noteq> []" "''ana'' \<noteq> []"
           "2 \<le> length (?red # replicate 50 ?ok)" "2 \<le> length (replicate 50 ?ok)"
    by simp_all
  have same: "last_n 50 (?red # replicate 50 ?ok) = last_n 50 (replicate 50 ?ok)"
             "last_n 100 (?red # replicate 100 ?ok) = last_n 100 (replicate 100 ?ok)"
    by (simp_all only: t50 t100)
  note w50 = classification_reads_tail_only [of "?red # replicate 50 ?ok" 0 "''ana''" "replicate 50 ?ok"]
  note w100 = classification_reads_tail_only [of "?red # replicate 100 ?ok" 0 "''ana''" "replicate 100 ?ok"]
  from w50 h50(1) ne(1)
  have a: "\<exists>fig shown.
      update_main_dashboard_auto 0 ''/'' (Some (Header # map Row (?red # replicate 50 ?ok))) =
        Main_update fig shown \<and> fig_title fig = ''Ritmo Cardiaco Normal''"
    by blast
  from w50 h50 ne(4)
  have b: "\<exists>fig_ecg fig_imu.
      update_sensor_charts 0 True (Some (Header # map Row (?red # replicate 50 ?ok))) =
        (fig_ecg, fig_imu, ''Ritmo Normal'', ''Movimiento Fluido'')"
    by blast
  from w100 ne(3) obtain alerts fig where m:
      "monitor_patient_health 0 (Some ''ana'') (Some (Header # map Row (?red # replicate 100 ?ok))) =
        Monitor_update alerts fig"
      "(\<forall>s\<in>set (last_n 100 (?red # replicate 100 ?ok)). status_ecg s \<noteq> ''RED_FLAG_ARRHYTHMIA'') \<longrightarrow>
         Arrhythmia_alert ''ana'' \<notin> set alerts \<and> doc_color fig = ''green''"
      "(\<forall>s\<in>set (last_n 100 (?red # replicate 100 ?ok)). status_imu s \<noteq> ''RED_FLAG_FATIGUE'') \<longrightarrow>
         Fatigue_alert \<notin> set alerts"
    by blast
  have "alerts = []"
  proof (cases alerts)
    case Nil
    then show ?thesis .
  next
    case (Cons x xs)
    have "x = Arrhythmia_alert ''ana'' \<or> x = Fatigue_alert"
      using m(1) Cons monitor_stream [OF ne(3), of 0 "?red # replicate 100 ?ok"]
      by (auto split: if_splits)
    with m(2,3) h100 Cons show ?thesis by auto
  qed
  with m h100 have c: "\<exists>fig.
      monitor_patient_health 0 (Some ''ana'') (Some (Header # map Row (?red # replicate 100 ?ok))) =
        Monitor_update [] fig \<and> doc_color fig = ''green''"
    by blast
  from w50 ne same
  have d: "update_main_dashboard_auto 0 ''/'' (Some (Header # map Row (?red # replicate 50 ?ok))) =
      update_main_dashboard_auto 0 ''/'' (Some (Header # map Row (replicate 50 ?ok)))"
    and e: "update_sensor_charts 0 True (Some (Header # map Row (?red # replicate 50 ?ok))) =
      update_sensor_charts 0 True (Some (Header # map Row (replicate 50 ?ok)))"
    by blast+
  from w100 ne(3) same(2)
  have f: "monitor_patient_health 0 (Some ''ana'') (Some (Header # map Row (?red # replicate 100 ?ok))) =
      monitor_patient_health 0 (Some ''ana'') (Some (Header # map Row (replicate 100 ?ok)))"
    by blast
  show ?thesis using a b c d e f by blast
qed

text \<open>
  Claim C9, as amended. The heart rate on the dashboard does not come from peak
  detection: for rows read that are not empty, it is 75 + 5 times the largest ECG
  amplitude among them, shown rounded to one decimal, hence within 0.05 of that value.
\<close>

theorem dashboard_bpm_readout:
  assumes "ss \<noteq> []"
  shows "\<exists>fig shown. update_main_dashboard_auto n ''/'' (Some (Header # map Row ss)) =
             Main_update fig shown \<and>
           shown = py_format 1 (75 + 5 * Max (ecg ` set (last_n 50 ss))) \<and>
           \<bar>shown - (75 + 5 * Max (ecg ` set (last_n 50 ss)))\<bar> \<le> 0.05"
proof -
  have "\<bar>py_format 1 (75 + 5 * Max (ecg ` set (last_n 50 ss))) -
          (75 + 5 * Max (ecg ` set (last_n 50 ss)))\<bar> \<le> 0.05"
    using py_format_near [of 1 "75 + 5 * Max (ecg ` set (last_n 50 ss))"] by simp
  then show ?thesis
    by (simp add: main_dashboard_stream [OF assms] mult.commute)
qed

theorem dashboard_bpm_readout_witness:
  "\<exists>fig. update_main_dashboard_auto 0 ''/''
       (Some (Header # map Row [flagged ''NORMAL'' ''NORMAL'' 0.5, flagged ''NORMAL'' ''NORMAL'' 1.0123,
                                 flagged ''NORMAL'' ''NORMAL'' (- 0.2)])) =
     Main_update fig 80.1"
proof -
  let ?ss = "[flagged ''NORMAL'' ''NORMAL'' 0.5, flagged ''NORMAL'' ''NORMAL'' 1.0123,
              flagged ''NORMAL'' ''NORMAL'' (- 0.2)]"
  have m: "Max (ecg ` set (last_n 50 ?ss)) = 1.0123"
    by (simp add: last_n_def flagged_def)
  have r: "py_format 1 (75 + 5 * 1.0123) = 80.1"
    by (simp add: py_format_def round_half_even_def Let_def)
  have ne: "?ss \<noteq> []" by simp
  show ?thesis
    using dashboard_bpm_readout [OF ne, of 0] unfolding m r by blast
qed

text \<open>
  The claim as first stated fails by the rounding: with the largest amplitude 0.1234 the
  value is 75.617 and the dashboard shows 75.6.
\<close>

theorem dashboard_bpm_rounded:
  "update_main_dashboard_auto 0 ''/'' (Some [Header, Row (flagged ''NORMAL'' ''NORMAL'' 0.1234)]) =
     Main_update \<lparr>fig_y = [0.1234], fig_color = ''#2ebf7f'', fig_title = ''Ritmo Cardiaco Normal''\<rparr>
       75.6 \<and>
   75 + 5 * (0.1234 :: real) = 75.617 \<and> (75.6 :: real) \<noteq> 75.617"
proof -
  have r: "py_format (Suc 0) (75617 / 1000) = 75.6"
    by (simp add: py_format_def round_half_even_def Let_def)
  have "update_main_dashboard_auto 0 ''/'' (Some (Header # map Row [flagged ''NORMAL'' ''NORMAL'' 0.1234])) =
     Main_update \<lparr>fig_y = [0.1234], fig_color = ''#2ebf7f'', fig_title = ''Ritmo Cardiaco Normal''\<rparr>
       75.6"
    by (subst main_dashboard_stream) (simp_all add: last_n_def flagged_def r)
  then show ?thesis by simp
qed

end
